theory Spec2Isabelle
  imports Main "HOL-Library.Word" "HOL-Library.Sublist"
begin

text \<open>
  The page script of the perfume avatar viewer: session start and stop with the WebRTC
  negotiation, the three ways text reaches the avatar (direct send, chat passthrough, tile
  explain) and the recorder's stop handler. The repository holds the script twice,
  frontend/perfume.js and a second file (unnamed/part_000) that differs in a few places; where
  they differ both are modelled, the second under the suffix \<open>_part000\<close> or the tag
  \<open>Part000\<close>. A handler is a function from the page state, and from what the environment
  answers during the call, to the page state after it.
\<close>

section \<open>JavaScript values\<close>

text \<open>
  A JavaScript string is a sequence of 16-bit code units. \<open>js\<close> writes an ASCII literal
  of the source as such a sequence.
\<close>

type_synonym jschar = "16 word"
type_synonym jsstr = "jschar list"

definition js :: "string \<Rightarrow> jsstr" where
  "js s = map of_char s"

text \<open>
  \<open>String.prototype.trim\<close> removes the code units of WhiteSpace and LineTerminator
  (ECMAScript 12.2, 12.3) from both ends.
\<close>

definition is_ws :: "jschar \<Rightarrow> bool" where
  "is_ws c = (c \<in> set [0x9, 0xA, 0xB, 0xC, 0xD, 0x20, 0xA0, 0x1680,
     0x2000, 0x2001, 0x2002, 0x2003, 0x2004, 0x2005, 0x2006, 0x2007, 0x2008, 0x2009, 0x200A,
     0x2028, 0x2029, 0x202F, 0x205F, 0x3000, 0xFEFF])"

definition trim :: "jsstr \<Rightarrow> jsstr" where
  "trim s = rev (dropWhile is_ws (rev (dropWhile is_ws s)))"

text \<open>
  The values a parsed JSON body and the module-level variables can hold. A number is kept
  as an integer: the code only tests numbers for truthiness (being nonzero).
\<close>

datatype jsval =
    JUndefined
  | JNull
  | JBool bool
  | JNum int
  | JStr jsstr
  | JArr "jsval list"
  | JObj "(jsstr \<times> jsval) list"

text \<open>What \<open>if (v)\<close>, \<open>!v\<close>, \<open>v && w\<close>, \<open>v || w\<close> and \<open>v ? a : b\<close> test.\<close>

fun truthy :: "jsval \<Rightarrow> bool" where
  "truthy JUndefined = False"
| "truthy JNull = False"
| "truthy (JBool b) = b"
| "truthy (JNum n) = (n \<noteq> 0)"
| "truthy (JStr s) = (s \<noteq> [])"
| "truthy (JArr xs) = True"
| "truthy (JObj kvs) = True"

text \<open>Exceptions and promise rejections.\<close>

datatype exn =
    TypeError            \<comment> \<open>property read of null/undefined, call of a non-function\<close>
  | FetchRejected        \<comment> \<open>\<open>fetch\<close> rejected (network failure)\<close>
  | JsonSyntaxError      \<comment> \<open>\<open>r.json()\<close> rejected\<close>
  | RtcError             \<comment> \<open>a WebRTC call threw or rejected\<close>
  | Error string         \<comment> \<open>\<open>new Error(msg)\<close>\<close>

text \<open>
  The property read \<open>v.k\<close> for the keys the code reads (\<open>offer_sdp\<close>, \<open>session_id\<close>,
  \<open>session_token\<close>, \<open>rtc_config\<close>, \<open>avatar_name\<close>, \<open>response\<close>, \<open>text\<close>; none of them is
  an inherited property of a primitive or an array). Of a duplicated key of a JSON object the
  last occurrence counts.
\<close>

fun get_prop :: "jsval \<Rightarrow> jsstr \<Rightarrow> exn + jsval" where
  "get_prop JUndefined k = Inl TypeError"
| "get_prop JNull k = Inl TypeError"
| "get_prop (JObj kvs) k = Inr (case map_of (rev kvs) k of None \<Rightarrow> JUndefined | Some v \<Rightarrow> v)"
| "get_prop v k = Inr JUndefined"

text \<open>\<open>v.trim()\<close>: only a string has the method.\<close>

fun call_trim :: "jsval \<Rightarrow> exn + jsstr" where
  "call_trim (JStr s) = Inr (trim s)"
| "call_trim v = Inl TypeError"

section \<open>The network\<close>

text \<open>
  What \<open>await fetch(...)\<close> gives: a rejection, or a response with its HTTP status and its
  body, \<open>None\<close> where \<open>r.json()\<close> rejects.
\<close>

datatype fetch_result = Rejected | Response nat "jsval option"

text \<open>\<open>await r.json().catch(()=>({}))\<close>\<close>

definition json_or_empty :: "jsval option \<Rightarrow> jsval" where
  "json_or_empty body = (case body of None \<Rightarrow> JObj [] | Some v \<Rightarrow> v)"

datatype level = INFO | ERROR

text \<open>
  The requests the page issues, with the parts of their bodies the handlers compute from the
  session state and the edit field. The fixed avatar parameters of start-session, the audio
  file of the recorder uploads and the \<open>extra\<close> object of a log line are not modelled.
\<close>

datatype request =
    ReqLog string string level           \<comment> \<open>POST /api/log: area, message, level\<close>
  | ReqStartSession                      \<comment> \<open>POST /api/start-session\<close>
  | ReqHeygenStart jsval jsval jsstr     \<comment> \<open>POST /api/heygen/start: session_id, session_token, answer_sdp\<close>
  | ReqStopSession                       \<comment> \<open>POST /api/stop-session\<close>
  | ReqSendTask jsval jsval jsstr        \<comment> \<open>POST /api/send-task: session_id, session_token, text\<close>
  | ReqChat jsstr                        \<comment> \<open>POST /api/chat: text\<close>
  | ReqPerfumeExplain jsstr              \<comment> \<open>POST /api/perfume-explain: name\<close>
  | ReqVoicechat                         \<comment> \<open>POST /api/voicechat: file\<close>
  | ReqTranscribe                        \<comment> \<open>POST /api/transcribe: file\<close>

fun is_send_task :: "request \<Rightarrow> bool" where
  "is_send_task (ReqSendTask sid tok text) = True"
| "is_send_task r = False"

section \<open>Page state\<close>

text \<open>The texts \<open>setStatus\<close> is called with.\<close>

datatype status =
    StReady                     \<comment> \<open>"Ready."\<close>
  | StRequestingViewerParams    \<comment> \<open>"requesting viewer params..."\<close>
  | StInitErrorStartSession     \<comment> \<open>"init error (start-session)"\<close>
  | StApplyingOffer             \<comment> \<open>"applying offer..."\<close>
  | StCreatingAnswer            \<comment> \<open>"creating answer..."\<close>
  | StStartingOnHeyGen          \<comment> \<open>"starting on HeyGen..."\<close>
  | StWaitingForMedia           \<comment> \<open>"waiting for media..."\<close>
  | StInitErrorWebrtc           \<comment> \<open>"init error (webrtc)"\<close>
  | StStopped                   \<comment> \<open>"stopped."\<close>
  | StStartSessionFirst         \<comment> \<open>"Start session first."\<close>
  | StSendingToChatGPT          \<comment> \<open>"Sending to ChatGPT..."\<close>
  | StOpenAIErrorSeeDebugBox    \<comment> \<open>"OpenAI error (see debug box)"\<close>
  | StOpenAIErrorSeeDebug       \<comment> \<open>"OpenAI error (see debug)"\<close>
  | StOpenAIError               \<comment> \<open>"OpenAI error"\<close>
  | StGettingPerfumeDetails     \<comment> \<open>"Getting perfume details..."\<close>
  | StVoicechatNoText           \<comment> \<open>"Voicechat returned no text."\<close>
  | StVoicechatError            \<comment> \<open>"Voicechat error"\<close>
  | StTranscriptionError exn    \<comment> \<open>"Transcription error: " followed by the error's message\<close>

text \<open>\<open>style.display\<close> of an element: \<open>""\<close> (the stylesheet's value), \<open>"none"\<close>, \<open>"flex"\<close>.\<close>

datatype display = DisplayDefault | DisplayNone | DisplayFlex

text \<open>The two labels of the microphone button (each file has its own pair of texts).\<close>

datatype mic_label = MicStart | MicEnd

text \<open>A peer connection event, for the history of the connections.\<close>

datatype pc_event = Created nat | Closed nat

text \<open>
  The module-level variables (\<open>SESSION_ID\<close>, \<open>SESSION_TOKEN\<close>, \<open>OFFER_SDP\<close>, \<open>RTC_CONFIG\<close>,
  \<open>pc\<close>, \<open>mediaRecorder\<close>), the objects they refer to, and the elements of the page the
  handlers write. \<open>pc\<close> holds a reference into \<open>conns\<close>, the \<open>RTCPeerConnection\<close> objects
  created so far, each with the flag "not closed". \<open>stream_tracks\<close> are the tracks of the
  stream the recorder's stop handler has captured, each with the flag "live". \<open>net\<close> and
  \<open>pc_history\<close> record the requests issued and the connections created and closed, in
  order.
\<close>

record state =
  SESSION_ID :: jsval
  SESSION_TOKEN :: jsval
  OFFER_SDP :: jsval
  RTC_CONFIG :: jsval
  pc :: "nat option"
  conns :: "bool list"
  mediaRecorder :: "unit option"
  stream_tracks :: "bool list"
  viewerStatus :: status
  editBox :: jsstr
  uiDebug :: "(string \<times> string) list"
  aname :: jsval
  gate_display :: display
  placeholder_display :: display
  mic_recording :: bool
  mic_text :: mic_label
  net :: "request list"
  pc_history :: "pc_event list"

definition setStatus :: "status \<Rightarrow> state \<Rightarrow> state" where
  "setStatus msg s = s\<lparr>viewerStatus := msg\<rparr>"

text \<open>Issuing a request: \<open>fetch\<close> is called, whatever comes of it.\<close>

definition issue :: "request \<Rightarrow> state \<Rightarrow> state" where
  "issue r s = s\<lparr>net := net s @ [r]\<rparr>"

text \<open>
  \<open>flog\<close>: \<open>uiLog\<close> appends a line to the debug box, then the line is posted to
  \<open>/api/log\<close>; a failure of either is swallowed.
\<close>

definition uiLog :: "string \<Rightarrow> string \<Rightarrow> state \<Rightarrow> state" where
  "uiLog area message s = s\<lparr>uiDebug := uiDebug s @ [(area, message)]\<rparr>"

definition flog :: "string \<Rightarrow> string \<Rightarrow> level \<Rightarrow> state \<Rightarrow> state" where
  "flog area message lvl s = issue (ReqLog area message lvl) (uiLog area message s)"

text \<open>\<open>SESSION_ID && SESSION_TOKEN\<close>\<close>

definition session_active :: "state \<Rightarrow> bool" where
  "session_active s = (truthy (SESSION_ID s) \<and> truthy (SESSION_TOKEN s))"

text \<open>The requests a handler has issued, between the state before and the state after.\<close>

definition issued :: "state \<Rightarrow> state \<Rightarrow> request list" where
  "issued s s' = drop (length (net s)) (net s')"

section \<open>Send to avatar\<close>

text \<open>
  The click handler of \<open>sendBtn\<close> (the same in both files). The \<open>fetch\<close> is not inside a
  \<open>try\<close>: a rejection ends the handler there.
\<close>

definition sendBtn_click :: "fetch_result \<Rightarrow> state \<Rightarrow> state" where
  "sendBtn_click send_resp s =
     (let text = trim (editBox s) in
      if text = [] then s
      else if \<not> session_active s then setStatus StStartSessionFirst s
      else
        let s1 = flog ''viewer'' ''Send to avatar clicked'' INFO s;
            s2 = issue (ReqSendTask (SESSION_ID s) (SESSION_TOKEN s) text) s1
        in case send_resp of
             Rejected \<Rightarrow> s2
           | Response http body \<Rightarrow> flog ''viewer'' ''/api/send-task response'' INFO s2)"

section \<open>Chat passthrough, tile explain\<close>

text \<open>
  The block all three reply paths end with (\<open>gptBtn\<close> of both files, \<open>explainPerfume\<close>):
  \<^verbatim>\<open>if (reply) { editBox.value = reply;
    if (SESSION_ID && SESSION_TOKEN) { fetch(send-task, {session_id, session_token, text: reply}).catch(...) } }
  setStatus("Ready.");\<close>
\<close>

definition show_and_forward :: "jsstr \<Rightarrow> state \<Rightarrow> state" where
  "show_and_forward reply s =
     setStatus StReady
       (if reply \<noteq> [] then
          (let s1 = s\<lparr>editBox := reply\<rparr> in
           if session_active s1
           then issue (ReqSendTask (SESSION_ID s1) (SESSION_TOKEN s1) reply) s1
           else s1)
        else s)"

text \<open>
  \<open>(j && j.response ? j.response : "").trim()\<close> (\<open>gptBtn\<close> of frontend/perfume.js,
  \<open>explainPerfume\<close> of both files)
\<close>

definition reply_of :: "jsval \<Rightarrow> exn + jsstr" where
  "reply_of j =
     (if truthy j then
        (case get_prop j (js ''response'') of
           Inl e \<Rightarrow> Inl e
         | Inr r \<Rightarrow> if truthy r then call_trim r else Inr [])
      else Inr [])"

text \<open>\<open>(j.response || "").trim()\<close> (the second file's \<open>gptBtn\<close>)\<close>

definition reply_of_part000 :: "jsval \<Rightarrow> exn + jsstr" where
  "reply_of_part000 j =
     (case get_prop j (js ''response'') of
        Inl e \<Rightarrow> Inl e
      | Inr r \<Rightarrow> if truthy r then call_trim r else Inr [])"

text \<open>\<open>text || "Hello"\<close>\<close>

definition chat_text :: "jsstr \<Rightarrow> jsstr" where
  "chat_text text = (if text \<noteq> [] then text else js ''Hello'')"

text \<open>The click handler of \<open>gptBtn\<close> in frontend/perfume.js.\<close>

definition gptBtn_try :: "fetch_result \<Rightarrow> jsstr \<Rightarrow> state \<Rightarrow> exn option \<times> state" where
  "gptBtn_try chat_resp text s =
     (let s1 = issue (ReqChat (chat_text text)) s in
      case chat_resp of
        Rejected \<Rightarrow> (Some FetchRejected, s1)
      | Response http body \<Rightarrow>
          let j = json_or_empty body;
              s2 = flog ''chatgpt'' ''/api/chat response'' INFO s1
          in if http \<ge> 400 then (None, setStatus StOpenAIErrorSeeDebugBox s2)
             else case reply_of j of
                    Inl e \<Rightarrow> (Some e, s2)
                  | Inr reply \<Rightarrow> (None, show_and_forward reply s2))"

definition gptBtn_click :: "fetch_result \<Rightarrow> state \<Rightarrow> state" where
  "gptBtn_click chat_resp s =
     (let text = trim (editBox s);
          s1 = (if text = [] then flog ''chatgpt'' ''Send to ChatGPT pressed (empty text)'' INFO s
                else flog ''chatgpt'' ''Send to ChatGPT pressed'' INFO s);
          s2 = setStatus StSendingToChatGPT s1
      in case gptBtn_try chat_resp text s2 of
           (None, s3) \<Rightarrow> s3
         | (Some e, s3) \<Rightarrow> setStatus StOpenAIError (flog ''chatgpt'' ''error'' ERROR s3))"

text \<open>
  The click handler of \<open>gptBtn\<close> in the second file: no status check, and \<open>await r.json()\<close>
  without a fallback.
\<close>

definition gptBtn_try_part000 :: "fetch_result \<Rightarrow> jsstr \<Rightarrow> state \<Rightarrow> exn option \<times> state" where
  "gptBtn_try_part000 chat_resp text s =
     (let s1 = issue (ReqChat (chat_text text)) s in
      case chat_resp of
        Rejected \<Rightarrow> (Some FetchRejected, s1)
      | Response http None \<Rightarrow> (Some JsonSyntaxError, s1)
      | Response http (Some j) \<Rightarrow>
          let s2 = flog ''chatgpt'' ''/api/chat response'' INFO s1
          in case reply_of_part000 j of
               Inl e \<Rightarrow> (Some e, s2)
             | Inr reply \<Rightarrow> (None, show_and_forward reply s2))"

definition gptBtn_click_part000 :: "fetch_result \<Rightarrow> state \<Rightarrow> state" where
  "gptBtn_click_part000 chat_resp s =
     (let text = trim (editBox s);
          s1 = flog ''chatgpt'' ''Send to ChatGPT pressed'' INFO s
      in case gptBtn_try_part000 chat_resp text s1 of
           (None, s2) \<Rightarrow> s2
         | (Some e, s2) \<Rightarrow> setStatus StOpenAIError (flog ''chatgpt'' ''error'' ERROR s2))"

text \<open>
  \<open>explainPerfume(name)\<close> (the same in both files). \<open>explain_begin\<close> is the part before the
  explain request goes out, \<open>explain_complete\<close> the part that runs on its outcome.
\<close>

definition explain_begin :: "jsstr \<Rightarrow> state \<Rightarrow> state" where
  "explain_begin nm s =
     (let s1 = s\<lparr>editBox := nm\<rparr>;
          s2 = flog ''tiles'' ''tile pressed'' INFO s1;
          s3 = (if session_active s2
                then issue (ReqSendTask (SESSION_ID s2) (SESSION_TOKEN s2) nm) s2
                else s2);
          s4 = setStatus StGettingPerfumeDetails s3
      in issue (ReqPerfumeExplain nm) s4)"

definition explain_try :: "fetch_result \<Rightarrow> state \<Rightarrow> exn option \<times> state" where
  "explain_try explain_resp s =
     (case explain_resp of
        Rejected \<Rightarrow> (Some FetchRejected, s)
      | Response http body \<Rightarrow>
          let j = json_or_empty body;
              s1 = flog ''tiles'' ''/api/perfume-explain response'' INFO s
          in if http \<ge> 400 then (None, setStatus StOpenAIErrorSeeDebug s1)
             else case reply_of j of
                    Inl e \<Rightarrow> (Some e, s1)
                  | Inr reply \<Rightarrow> (None, show_and_forward reply s1))"

definition explain_complete :: "fetch_result \<Rightarrow> state \<Rightarrow> state" where
  "explain_complete explain_resp s =
     (case explain_try explain_resp s of
        (None, s1) \<Rightarrow> s1
      | (Some e, s1) \<Rightarrow> setStatus StOpenAIError (flog ''tiles'' ''perfume-explain error'' ERROR s1))"

definition explainPerfume :: "jsstr \<Rightarrow> fetch_result \<Rightarrow> state \<Rightarrow> state" where
  "explainPerfume name explain_resp s =
     (let nm = trim name in
      if nm = [] then s
      else explain_complete explain_resp (explain_begin nm s))"

section \<open>Start and stop session\<close>

text \<open>
  The two files differ in \<open>startSession\<close> and \<open>stopSession\<close> only by the placeholder
  element, which the second file hides on start and shows again on an error and on stop.
\<close>

datatype source_file = Frontend | Part000

definition hide_placeholder :: "source_file \<Rightarrow> state \<Rightarrow> state" where
  "hide_placeholder f s =
     (case f of Frontend \<Rightarrow> s | Part000 \<Rightarrow> s\<lparr>placeholder_display := DisplayNone\<rparr>)"

definition show_placeholder :: "source_file \<Rightarrow> state \<Rightarrow> state" where
  "show_placeholder f s =
     (case f of Frontend \<Rightarrow> s | Part000 \<Rightarrow> s\<lparr>placeholder_display := DisplayDefault\<rparr>)"

text \<open>\<open>if (pc) { try { pc.close(); } catch {} }\<close>\<close>

definition pc_close :: "state \<Rightarrow> state" where
  "pc_close s =
     (case pc s of
        None \<Rightarrow> s
      | Some c \<Rightarrow> s\<lparr>conns := (conns s)[c := False], pc_history := pc_history s @ [Closed c]\<rparr>)"

text \<open>\<open>pc = new RTCPeerConnection(RTC_CONFIG)\<close>, where the constructor returns.\<close>

definition pc_new :: "state \<Rightarrow> state" where
  "pc_new s =
     s\<lparr>pc := Some (length (conns s)),
       conns := conns s @ [True],
       pc_history := pc_history s @ [Created (length (conns s))]\<rparr>"

subsection \<open>The wait for ICE gathering\<close>

text \<open>
  \<^verbatim>\<open>await new Promise(res => {
    if (pc.iceGatheringState === "complete") return res();
    const h = () => { if (pc.iceGatheringState === "complete") { ...; res(); } };
    pc.addEventListener("icegatheringstatechange", h);
    setTimeout(res, 1500);
  });\<close>
  The environment gives the gathering state at the start of the wait and the later
  \<open>icegatheringstatechange\<close> events, each with its time in milliseconds since the start of
  the wait and the state the connection is in then. \<open>schedule_timeout\<close> puts the timer's task
  into that sequence at its delay; \<open>first_res\<close> runs the tasks and gives the time of the
  first call of \<open>res\<close>, \<open>None\<close> if no task calls it. Time is the event loop's: the
  timer's task runs when its delay has passed.
\<close>

datatype ice_state = IceNew | IceGathering | IceComplete

datatype wait_task = IceGatheringStateChange ice_state | TimerFired

fun schedule_timeout :: "nat \<Rightarrow> (nat \<times> ice_state) list \<Rightarrow> (nat \<times> wait_task) list" where
  "schedule_timeout d [] = [(d, TimerFired)]"
| "schedule_timeout d ((t, st) # es) =
     (if d < t
      then (d, TimerFired) # map (\<lambda>(t', st'). (t', IceGatheringStateChange st')) ((t, st) # es)
      else (t, IceGatheringStateChange st) # schedule_timeout d es)"

fun first_res :: "(nat \<times> wait_task) list \<Rightarrow> nat option" where
  "first_res [] = None"
| "first_res ((t, TimerFired) # q) = Some t"
| "first_res ((t, IceGatheringStateChange st) # q) =
     (if st = IceComplete then Some t else first_res q)"

definition ice_wait :: "ice_state \<Rightarrow> (nat \<times> ice_state) list \<Rightarrow> nat option" where
  "ice_wait initial events =
     (if initial = IceComplete then Some 0
      else first_res (schedule_timeout 1500 events))"

subsection \<open>startSession\<close>

text \<open>
  What the environment does during one \<open>startSession\<close>: the two responses of the backend,
  whether each WebRTC call returns or throws, the ICE gathering events, and the SDP of
  \<open>pc.localDescription\<close> after the wait.
\<close>

record start_env =
  start_resp :: fetch_result
  pc_ctor_ok :: bool
  transceivers_ok :: bool
  set_remote_ok :: bool
  create_answer_ok :: bool
  set_local_ok :: bool
  ice_initial :: ice_state
  ice_events :: "(nat \<times> ice_state) list"
  local_sdp :: jsstr
  heygen_resp :: fetch_result

text \<open>The first \<open>try\<close> block: it gives \<open>j\<close>, or throws.\<close>

definition start_session_try :: "start_env \<Rightarrow> state \<Rightarrow> (exn + jsval) \<times> state" where
  "start_session_try env s =
     (let s1 = issue ReqStartSession s in
      case start_resp env of
        Rejected \<Rightarrow> (Inl FetchRejected, s1)
      | Response http body \<Rightarrow>
          let j = json_or_empty body;
              s2 = flog ''viewer'' ''/api/start-session response'' INFO s1
          in if http \<ge> 400 then (Inl (Error ''start-session failed or no offer_sdp''), s2)
             else case get_prop j (js ''offer_sdp'') of
                    Inl e \<Rightarrow> (Inl e, s2)
                  | Inr offer \<Rightarrow>
                      if \<not> truthy offer
                      then (Inl (Error ''start-session failed or no offer_sdp''), s2)
                      else (Inr j, s2))"

text \<open>
  The assignments between the two \<open>try\<close> blocks. They run only on a \<open>j\<close> whose \<open>offer_sdp\<close> is
  truthy, so \<open>j\<close> is an object and its property reads do not throw (\<open>field\<close>). \<open>a || b\<close> is
  \<open>or_else\<close>. \<open>aname\<close> is the value assigned to \<open>nameEl.textContent\<close>, not yet turned into a
  string.
\<close>

definition field :: "jsval \<Rightarrow> jsstr \<Rightarrow> jsval" where
  "field j k = (case get_prop j k of Inl e \<Rightarrow> JUndefined | Inr v \<Rightarrow> v)"

definition or_else :: "jsval \<Rightarrow> jsval \<Rightarrow> jsval" where
  "or_else a b = (if truthy a then a else b)"

definition assign_session :: "jsval \<Rightarrow> state \<Rightarrow> state" where
  "assign_session j s =
     s\<lparr>aname := or_else (field j (js ''avatar_name'')) (JStr [0x2014]),
       SESSION_ID := field j (js ''session_id''),
       SESSION_TOKEN := field j (js ''session_token''),
       OFFER_SDP := field j (js ''offer_sdp''),
       RTC_CONFIG := or_else (field j (js ''rtc_config'')) (RTC_CONFIG s)\<rparr>"

text \<open>
  The second \<open>try\<close> block. It completes, throws, or stays pending (if the awaited promise of
  the ICE wait never resolved).
\<close>

datatype outcome = Completed | Threw exn | Pending

definition negotiate :: "start_env \<Rightarrow> state \<Rightarrow> outcome \<times> state" where
  "negotiate env s =
     (let s1 = pc_close s in
      if \<not> pc_ctor_ok env then (Threw TypeError, s1) else
      let s2 = pc_new s1 in
      if \<not> transceivers_ok env then (Threw RtcError, s2) else
      let s3 = setStatus StApplyingOffer s2 in
      if \<not> set_remote_ok env then (Threw RtcError, s3) else
      let s4 = setStatus StCreatingAnswer s3 in
      if \<not> create_answer_ok env then (Threw RtcError, s4) else
      if \<not> set_local_ok env then (Threw RtcError, s4) else
      case ice_wait (ice_initial env) (ice_events env) of
        None \<Rightarrow> (Pending, s4)
      | Some t \<Rightarrow>
          let s5 = setStatus StStartingOnHeyGen s4;
              s6 = issue (ReqHeygenStart (SESSION_ID s5) (SESSION_TOKEN s5) (local_sdp env)) s5
          in case heygen_resp env of
               Rejected \<Rightarrow> (Threw FetchRejected, s6)
             | Response http body \<Rightarrow>
                 let s7 = flog ''viewer'' ''/api/heygen/start response'' INFO s6
                 in if http \<ge> 400 then (Threw (Error ''heygen.start failed''), s7)
                    else (Completed, (setStatus StWaitingForMedia s7)\<lparr>gate_display := DisplayFlex\<rparr>))"

definition startSession :: "source_file \<Rightarrow> start_env \<Rightarrow> state \<Rightarrow> state" where
  "startSession f env s =
     (let s1 = hide_placeholder f s;
          s2 = flog ''viewer'' ''Start button pressed'' INFO s1;
          s3 = setStatus StRequestingViewerParams s2
      in case start_session_try env s3 of
           (Inl e, s4) \<Rightarrow>
             show_placeholder f
               (setStatus StInitErrorStartSession
                 (flog ''viewer'' ''start-session failed'' ERROR s4))
         | (Inr j, s4) \<Rightarrow>
             (case negotiate env (assign_session j s4) of
                (Completed, s5) \<Rightarrow> s5
              | (Threw e, s5) \<Rightarrow>
                  show_placeholder f
                    (setStatus StInitErrorWebrtc
                      (flog ''viewer'' ''webrtc/start error'' ERROR s5))
              | (Pending, s5) \<Rightarrow> s5))"

subsection \<open>stopSession\<close>

definition stopSession :: "source_file \<Rightarrow> fetch_result \<Rightarrow> state \<Rightarrow> state" where
  "stopSession f stop_resp s =
     (let s1 = flog ''viewer'' ''Stop button pressed'' INFO s;
          s2 = issue ReqStopSession s1;
          s3 = (case stop_resp of
                  Rejected \<Rightarrow> flog ''viewer'' ''stop-session error'' ERROR s2
                | Response http body \<Rightarrow> flog ''viewer'' ''/api/stop-session response'' INFO s2);
          s4 = (pc_close s3)\<lparr>pc := None\<rparr>;
          s5 = show_placeholder f s4
      in setStatus StStopped s5)"

section \<open>The recorder's stop handler\<close>

text \<open>
  \<open>mediaRecorder.onstop\<close> of frontend/perfume.js. The audio graph (\<open>cancelAnimationFrame\<close>,
  \<open>sourceNode.disconnect\<close>) and the construction of the uploaded file are not modelled.
  \<open>text_string\<close> is the test \<open>j && typeof j.text === "string"\<close>, giving the string.
\<close>

definition text_string :: "jsval \<Rightarrow> jsstr option" where
  "text_string j =
     (if truthy j then
        (case get_prop j (js ''text'') of Inr (JStr t) \<Rightarrow> Some t | _ \<Rightarrow> None)
      else None)"

definition onstop_try :: "fetch_result \<Rightarrow> state \<Rightarrow> exn option \<times> state" where
  "onstop_try voice_resp s =
     (let s1 = setStatus StSendingToChatGPT s;
          s2 = flog ''mic'' ''sending to /api/voicechat'' INFO s1;
          s3 = issue ReqVoicechat s2
      in case voice_resp of
           Rejected \<Rightarrow> (Some FetchRejected, s3)
         | Response http body \<Rightarrow>
             let j = json_or_empty body;
                 s4 = flog ''mic'' ''/api/voicechat response'' INFO s3
             in case text_string j of
                  Some t \<Rightarrow> (None, setStatus StReady (s4\<lparr>editBox := trim t\<rparr>))
                | None \<Rightarrow> (None, setStatus StVoicechatNoText s4))"

text \<open>
  The \<open>finally\<close> block (the same in both files, up to the button's text):
  \<open>stream.getTracks().forEach(t => t.stop()); mediaRecorder = null;\<close> and the reset of the
  button.
\<close>

definition onstop_finally :: "state \<Rightarrow> state" where
  "onstop_finally s =
     s\<lparr>stream_tracks := map (\<lambda>live. False) (stream_tracks s),
       mediaRecorder := None,
       mic_recording := False,
       mic_text := MicStart\<rparr>"

definition onstop :: "fetch_result \<Rightarrow> state \<Rightarrow> state" where
  "onstop voice_resp s =
     (let s1 = flog ''mic'' ''EndRecording fired'' INFO s;
          s2 = (case onstop_try voice_resp s1 of
                  (None, s') \<Rightarrow> s'
                | (Some e, s') \<Rightarrow>
                    setStatus StVoicechatError (flog ''mic'' ''voicechat error'' ERROR s'))
      in onstop_finally s2)"

text \<open>
  \<open>mediaRecorder.onstop\<close> of the second file. \<open>mediaRecorder.mimeType\<close> is read inside the
  \<open>try\<close>; \<open>if (j && j.text) editBox.value = j.text\<close> assigns the text as it is, a string
  unchanged and any other value as the runtime's string conversion \<open>conv\<close> renders it.
\<close>

definition value_text :: "(jsval \<Rightarrow> jsstr) \<Rightarrow> jsval \<Rightarrow> jsstr" where
  "value_text conv v = (case v of JStr t \<Rightarrow> t | _ \<Rightarrow> conv v)"

definition onstop_try_part000 ::
  "(jsval \<Rightarrow> jsstr) \<Rightarrow> fetch_result \<Rightarrow> state \<Rightarrow> exn option \<times> state" where
  "onstop_try_part000 conv transcribe_resp s =
     (case mediaRecorder s of
        None \<Rightarrow> (Some TypeError, s)
      | Some rec \<Rightarrow>
          let s1 = flog ''mic'' ''sending to /api/transcribe'' INFO s;
              s2 = issue ReqTranscribe s1
          in case transcribe_resp of
               Rejected \<Rightarrow> (Some FetchRejected, s2)
             | Response http body \<Rightarrow>
                 let j = json_or_empty body;
                     s3 = flog ''mic'' ''/api/transcribe response'' INFO s2;
                     s4 = (if truthy j \<and> truthy (field j (js ''text''))
                           then s3\<lparr>editBox := value_text conv (field j (js ''text''))\<rparr>
                           else s3)
                 in (None, setStatus StReady s4))"

definition onstop_part000 :: "(jsval \<Rightarrow> jsstr) \<Rightarrow> fetch_result \<Rightarrow> state \<Rightarrow> state" where
  "onstop_part000 conv transcribe_resp s =
     (let s1 = (case onstop_try_part000 conv transcribe_resp s of
                  (None, s') \<Rightarrow> s'
                | (Some e, s') \<Rightarrow> setStatus (StTranscriptionError e) s')
      in onstop_finally s1)"

section \<open>Runs of the page\<close>

text \<open>
  The state after the script has loaded, and the user actions that call the handlers. In a
  run each handler comes to its end before the next action starts (one flow per user
  action).
\<close>

definition default_rtc_config :: jsval where
  "default_rtc_config =
     JObj [(js ''iceServers'',
            JArr [JObj [(js ''urls'', JArr [JStr (js ''stun:stun.l.google.com:19302'')])]])]"

definition loaded :: state where
  "loaded =
     \<lparr>SESSION_ID = JNull, SESSION_TOKEN = JNull, OFFER_SDP = JNull,
      RTC_CONFIG = default_rtc_config,
      pc = None, conns = [], mediaRecorder = None, stream_tracks = [],
      viewerStatus = StReady, editBox = [], uiDebug = [], aname = JStr [],
      gate_display = DisplayDefault, placeholder_display = DisplayDefault,
      mic_recording = False, mic_text = MicStart, net = [], pc_history = []\<rparr>"

datatype action =
    Start source_file start_env
  | Stop source_file fetch_result
  | Send fetch_result
  | Chat fetch_result
  | ChatPart000 fetch_result
  | Explain jsstr fetch_result
  | RecorderStop fetch_result
  | RecorderStopPart000 "jsval \<Rightarrow> jsstr" fetch_result

fun step :: "action \<Rightarrow> state \<Rightarrow> state" where
  "step (Start f env) s = startSession f env s"
| "step (Stop f r) s = stopSession f r s"
| "step (Send r) s = sendBtn_click r s"
| "step (Chat r) s = gptBtn_click r s"
| "step (ChatPart000 r) s = gptBtn_click_part000 r s"
| "step (Explain name r) s = explainPerfume name r s"
| "step (RecorderStop r) s = onstop r s"
| "step (RecorderStopPart000 conv r) s = onstop_part000 conv r s"

definition run :: "action list \<Rightarrow> state \<Rightarrow> state" where
  "run as s = fold step as s"

text \<open>The connections open after a history: those created and not closed since.\<close>

fun apply_event :: "pc_event \<Rightarrow> nat set \<Rightarrow> nat set" where
  "apply_event (Created c) S = insert c S"
| "apply_event (Closed c) S = S - {c}"

definition open_after :: "pc_event list \<Rightarrow> nat set" where
  "open_after h = fold apply_event h {}"

section \<open>Failing starts, example data\<close>

text \<open>
  When the start-session step fails: the request is rejected, the status is 400 or more, or
  the body has no truthy \<open>offer_sdp\<close> (\<open>r.status >= 400 || !j.offer_sdp\<close>, or the read
  itself throws). When a later step fails: one of the WebRTC calls throws, or the
  heygen-start upload is rejected or answered with a status of 400 or more.
\<close>

definition offer_present :: "jsval \<Rightarrow> bool" where
  "offer_present j = (case get_prop j (js ''offer_sdp'') of Inl e \<Rightarrow> False | Inr v \<Rightarrow> truthy v)"

definition request_fails :: "start_env \<Rightarrow> bool" where
  "request_fails env =
     (case start_resp env of
        Rejected \<Rightarrow> True
      | Response http body \<Rightarrow> http \<ge> 400 \<or> \<not> offer_present (json_or_empty body))"

definition negotiation_fails :: "start_env \<Rightarrow> bool" where
  "negotiation_fails env =
     (\<not> pc_ctor_ok env \<or> \<not> transceivers_ok env \<or> \<not> set_remote_ok env \<or>
      \<not> create_answer_ok env \<or> \<not> set_local_ok env \<or>
      (case heygen_resp env of Rejected \<Rightarrow> True | Response http body \<Rightarrow> http \<ge> 400))"

text \<open>
  A start that succeeds, with the response
  \<open>{session_id:"s1", session_token:"t1", offer_sdp:"<sdp>"}\<close>, and the page after it.
\<close>

definition start_resp_s1 :: fetch_result where
  "start_resp_s1 =
     Response 200 (Some (JObj [(js ''session_id'', JStr (js ''s1'')),
                               (js ''session_token'', JStr (js ''t1'')),
                               (js ''offer_sdp'', JStr (js ''<sdp>''))]))"

definition env_ok :: start_env where
  "env_ok =
     \<lparr>start_resp = start_resp_s1, pc_ctor_ok = True, transceivers_ok = True,
      set_remote_ok = True, create_answer_ok = True, set_local_ok = True,
      ice_initial = IceNew, ice_events = [(120, IceGathering), (800, IceComplete)],
      local_sdp = js ''<answer>'', heygen_resp = Response 200 (Some (JObj []))\<rparr>"

definition started :: state where
  "started = startSession Frontend env_ok loaded"

text \<open>The same start where applying the offer fails, and where the response has no offer.\<close>

definition env_offer_rejected :: start_env where
  "env_offer_rejected = env_ok\<lparr>set_remote_ok := False\<rparr>"

definition env_no_offer :: start_env where
  "env_no_offer =
     env_ok\<lparr>start_resp :=
       Response 200 (Some (JObj [(js ''session_id'', JStr (js ''s1'')),
                                 (js ''session_token'', JStr (js ''t1''))]))\<rparr>"

text \<open>A page that is recording, with one live microphone track.\<close>

definition recording :: state where
  "recording =
     loaded\<lparr>mediaRecorder := Some (), stream_tracks := [True],
            mic_recording := True, mic_text := MicEnd\<rparr>"

text \<open>A stand-in for the runtime's string conversion of a value that is not a string.\<close>

definition sample_conv :: "jsval \<Rightarrow> jsstr" where
  "sample_conv v = js ''[object Object]''"

text \<open>The chat requests among the requests issued.\<close>

fun is_chat :: "request \<Rightarrow> bool" where
  "is_chat (ReqChat text) = True"
| "is_chat r = False"

text \<open>
  The events by which a handler lets go of the held connection, and the invariant of the
  connection history: a connection that is open is the held one, and at no point of the
  history was more than one open.
\<close>

definition closing :: "nat option \<Rightarrow> pc_event list" where
  "closing p = (case p of None \<Rightarrow> [] | Some c \<Rightarrow> [Closed c])"

definition conn_inv :: "state \<Rightarrow> bool" where
  "conn_inv s =
     (open_after (pc_history s) \<subseteq> set_option (pc s) \<and>
      (\<forall>h. prefix h (pc_history s) \<longrightarrow> card (open_after h) \<le> 1))"

text \<open>
  The connection objects agree with the history: the objects not closed are the connections
  open after the history, and \<open>pc\<close> refers to an object that exists.
\<close>

definition heap_inv :: "state \<Rightarrow> bool" where
  "heap_inv s =
     (open_after (pc_history s) = {c. c < length (conns s) \<and> conns s ! c} \<and>
      (\<forall>c. pc s = Some c \<longrightarrow> c < length (conns s)))"

section \<open>Properties\<close>

subsection \<open>What the primitives leave alone\<close>

lemmas prim_defs =
  flog_def uiLog_def issue_def setStatus_def show_placeholder_def hide_placeholder_def
  pc_close_def pc_new_def

lemmas handler_defs =
  startSession_def start_session_try_def negotiate_def assign_session_def stopSession_def
  json_or_empty_def field_def or_else_def ice_wait_def Let_def

lemma net_frame [simp]:
  "net (setStatus m s) = net s"
  "net (issue q s) = net s @ [q]"
  "net (flog a t l s) = net s @ [ReqLog a t l]"
  by (simp_all add: setStatus_def issue_def flog_def uiLog_def)

lemma edit_frame [simp]:
  "editBox (setStatus m s) = editBox s" "editBox (issue q s) = editBox s"
  "editBox (flog a t l s) = editBox s"
  "SESSION_ID (setStatus m s) = SESSION_ID s" "SESSION_ID (issue q s) = SESSION_ID s"
  "SESSION_ID (flog a t l s) = SESSION_ID s"
  "SESSION_TOKEN (setStatus m s) = SESSION_TOKEN s" "SESSION_TOKEN (issue q s) = SESSION_TOKEN s"
  "SESSION_TOKEN (flog a t l s) = SESSION_TOKEN s"
  by (simp_all add: setStatus_def issue_def flog_def uiLog_def)

lemma session_active_frame [simp]:
  "session_active (setStatus m s) = session_active s"
  "session_active (issue q s) = session_active s"
  "session_active (flog a t l s) = session_active s"
  "session_active (s\<lparr>editBox := e\<rparr>) = session_active s"
  by (simp_all add: session_active_def)

lemma pc_frame [simp]:
  "pc (setStatus m s) = pc s" "pc_history (setStatus m s) = pc_history s"
  "conns (setStatus m s) = conns s"
  "pc (issue r s) = pc s" "pc_history (issue r s) = pc_history s"
  "conns (issue r s) = conns s"
  "pc (flog a t l s) = pc s" "pc_history (flog a t l s) = pc_history s"
  "conns (flog a t l s) = conns s"
  "pc (show_placeholder f s) = pc s" "pc_history (show_placeholder f s) = pc_history s"
  "conns (show_placeholder f s) = conns s"
  "pc (hide_placeholder f s) = pc s" "pc_history (hide_placeholder f s) = pc_history s"
  "conns (hide_placeholder f s) = conns s"
  "pc (assign_session j s) = pc s" "pc_history (assign_session j s) = pc_history s"
  "conns (assign_session j s) = conns s"
  by (cases f; simp add: setStatus_def issue_def flog_def uiLog_def show_placeholder_def
        hide_placeholder_def assign_session_def)+

lemma pc_close_pc [simp]:
  "pc (pc_close s) = pc s" "pc_history (pc_close s) = pc_history s @ closing (pc s)"
  "length (conns (pc_close s)) = length (conns s)"
  by (cases "pc s"; simp add: pc_close_def closing_def)+

lemma pc_new_pc [simp]:
  "pc (pc_new s) = Some (length (conns s))"
  "pc_history (pc_new s) = pc_history s @ [Created (length (conns s))]"
  by (simp_all add: pc_new_def)

subsection \<open>The example states\<close>

lemma started_simps:
  "SESSION_ID started = JStr (js ''s1'')"
  "SESSION_TOKEN started = JStr (js ''t1'')"
  "pc started = Some 0"
  "conns started = [True]"
  "viewerStatus started = StWaitingForMedia"
  "pc_history started = [Created 0]"
  "editBox started = []"
  by (simp_all add: started_def env_ok_def start_resp_s1_def loaded_def handler_defs prim_defs
        js_def)

subsection \<open>Send to avatar\<close>

text \<open>
  C6. A click on Send issues no request at all when the trimmed edit text is empty or no
  session is active; otherwise the one send-task request it issues carries the held session
  id and token and the trimmed edit text.
\<close>

theorem sendBtn_click_requests:
  "(trim (editBox s) = [] \<or> \<not> session_active s \<longrightarrow> issued s (sendBtn_click r s) = []) \<and>
   (trim (editBox s) \<noteq> [] \<and> session_active s \<longrightarrow>
      filter is_send_task (issued s (sendBtn_click r s)) =
        [ReqSendTask (SESSION_ID s) (SESSION_TOKEN s) (trim (editBox s))])"
  by (cases r) (simp_all add: sendBtn_click_def issued_def Let_def)

theorem sendBtn_click_requests_witness:
  "issued (loaded\<lparr>editBox := js ''hi''\<rparr>) (sendBtn_click Rejected (loaded\<lparr>editBox := js ''hi''\<rparr>)) = [] \<and>
   issued (started\<lparr>editBox := js ''  ''\<rparr>)
     (sendBtn_click (Response 200 None) (started\<lparr>editBox := js ''  ''\<rparr>)) = [] \<and>
   filter is_send_task
     (issued (started\<lparr>editBox := js '' hi ''\<rparr>)
        (sendBtn_click (Response 200 None) (started\<lparr>editBox := js '' hi ''\<rparr>))) =
     [ReqSendTask (JStr (js ''s1'')) (JStr (js ''t1'')) (js ''hi'')]"
  using sendBtn_click_requests [of "loaded\<lparr>editBox := js ''hi''\<rparr>" Rejected]
    sendBtn_click_requests [of "started\<lparr>editBox := js ''  ''\<rparr>" "Response 200 None"]
    sendBtn_click_requests [of "started\<lparr>editBox := js '' hi ''\<rparr>" "Response 200 None"]
  by (simp add: session_active_def started_simps loaded_def trim_def is_ws_def js_def)

subsection \<open>The wait for ICE gathering\<close>

lemma first_res_schedule:
  "\<exists>t. first_res (schedule_timeout d es) = Some t \<and> t \<le> d"
  by (induction es) (auto split: if_splits)

lemma first_res_schedule_cases:
  "first_res (schedule_timeout d es) = Some t \<Longrightarrow> t = d \<or> (t, IceComplete) \<in> set es"
  by (induction es) (auto split: if_splits)

lemma first_res_schedule_least:
  "sorted (map fst es) \<Longrightarrow> first_res (schedule_timeout d es) = Some t \<Longrightarrow>
   (t', IceComplete) \<in> set es \<Longrightarrow> t \<le> t'"
  by (induction es) (auto split: if_splits)

lemma ice_wait_resolves: "\<exists>t. ice_wait i es = Some t \<and> t \<le> 1500"
  using first_res_schedule [of 1500 es] by (auto simp: ice_wait_def)

lemma negotiate_not_pending: "fst (negotiate env s) \<noteq> Pending"
  using ice_wait_resolves [of "ice_initial env" "ice_events env"]
  by (auto simp: negotiate_def Let_def split: fetch_result.splits if_splits)

text \<open>
  C9. The wait for ICE gathering always ends, after 1500 ms at most: at once if gathering
  is complete already, otherwise at the first gathering-complete event or at the timeout,
  whichever comes first; so the negotiation never stays pending.
\<close>

theorem ice_wait_bounded:
  "\<exists>t. ice_wait i es = Some t \<and> t \<le> 1500 \<and>
     (i = IceComplete \<longrightarrow> t = 0) \<and>
     (t < 1500 \<longrightarrow> i = IceComplete \<or> (t, IceComplete) \<in> set es) \<and>
     (sorted (map fst es) \<longrightarrow> (\<forall>t'. (t', IceComplete) \<in> set es \<longrightarrow> t \<le> t')) \<and>
     fst (negotiate env s) \<noteq> Pending"
proof -
  obtain t where t: "ice_wait i es = Some t" "t \<le> 1500"
    using ice_wait_resolves by blast
  have "i = IceComplete \<longrightarrow> t = 0"
    using t by (auto simp: ice_wait_def)
  moreover have "t < 1500 \<longrightarrow> i = IceComplete \<or> (t, IceComplete) \<in> set es"
    using t first_res_schedule_cases [of 1500 es t] by (auto simp: ice_wait_def split: if_splits)
  moreover have "sorted (map fst es) \<longrightarrow> (\<forall>t'. (t', IceComplete) \<in> set es \<longrightarrow> t \<le> t')"
    using t first_res_schedule_least [of es 1500 t] by (auto simp: ice_wait_def split: if_splits)
  ultimately show ?thesis
    using t negotiate_not_pending [of env s] by (intro exI [of _ t]) simp
qed

theorem ice_wait_bounded_witness:
  "\<exists>t. ice_wait IceNew [(120, IceGathering), (800, IceComplete)] = Some t \<and> t \<le> 800 \<and>
       fst (negotiate env_ok loaded) \<noteq> Pending"
  using ice_wait_bounded [of IceNew "[(120, IceGathering), (800, IceComplete)]" env_ok loaded]
  by auto

subsection \<open>The recorder's stop handler\<close>

text \<open>
  C5. Whatever the upload does (rejected, answered with any status and body), the stop
  handler of either file stops every track of the captured stream, drops the recorder and
  resets the microphone button.
\<close>

theorem onstop_releases:
  "stream_tracks (onstop r s) = replicate (length (stream_tracks s)) False \<and>
   mediaRecorder (onstop r s) = None \<and>
   \<not> mic_recording (onstop r s) \<and>
   mic_text (onstop r s) = MicStart \<and>
   stream_tracks (onstop_part000 conv r s) = replicate (length (stream_tracks s)) False \<and>
   mediaRecorder (onstop_part000 conv r s) = None \<and>
   \<not> mic_recording (onstop_part000 conv r s) \<and>
   mic_text (onstop_part000 conv r s) = MicStart"
  by (cases r)
     (simp_all add: onstop_def onstop_part000_def onstop_try_def onstop_try_part000_def
        onstop_finally_def flog_def uiLog_def issue_def setStatus_def Let_def map_replicate_const
        split: option.splits)

theorem onstop_releases_witness:
  "stream_tracks (onstop Rejected recording) = [False] \<and>
   mediaRecorder (onstop Rejected recording) = None \<and>
   \<not> mic_recording (onstop Rejected recording) \<and>
   mic_text (onstop Rejected recording) = MicStart \<and>
   stream_tracks (onstop_part000 sample_conv Rejected recording) = [False] \<and>
   mic_text (onstop_part000 sample_conv Rejected recording) = MicStart"
  using onstop_releases [of Rejected recording sample_conv]
  by (simp add: recording_def loaded_def)

text \<open>
  C8, as the code has it. In frontend/perfume.js a reply whose \<open>text\<close> is a string, the empty
  one too, puts the trimmed text into the edit field under the status "Ready."; any other
  reply leaves the edit field and shows "Voicechat returned no text.". In the second file a
  truthy \<open>text\<close> goes into the edit field as it is, any other reply leaves the edit field, and
  the status is "Ready." either way.
\<close>

theorem onstop_reply_text:
  "(text_string (json_or_empty body) = Some t \<longrightarrow>
      editBox (onstop (Response http body) s) = trim t \<and>
      viewerStatus (onstop (Response http body) s) = StReady) \<and>
   (text_string (json_or_empty body) = None \<longrightarrow>
      editBox (onstop (Response http body) s) = editBox s \<and>
      viewerStatus (onstop (Response http body) s) = StVoicechatNoText) \<and>
   (mediaRecorder s \<noteq> None \<longrightarrow>
      editBox (onstop_part000 conv (Response http body) s) =
        (if truthy (json_or_empty body) \<and> truthy (field (json_or_empty body) (js ''text''))
         then value_text conv (field (json_or_empty body) (js ''text''))
         else editBox s) \<and>
      viewerStatus (onstop_part000 conv (Response http body) s) = StReady)"
  by (simp add: onstop_def onstop_part000_def onstop_try_def onstop_try_part000_def
        onstop_finally_def prim_defs Let_def split: option.splits)

theorem onstop_reply_text_witness:
  "editBox (onstop (Response 200 (Some (JObj [(js ''text'', JStr (js '' hi ''))]))) recording) = js ''hi'' \<and>
   viewerStatus (onstop (Response 200 (Some (JObj [(js ''text'', JStr (js '' hi ''))]))) recording) = StReady \<and>
   viewerStatus (onstop (Response 200 (Some (JObj []))) recording) = StVoicechatNoText \<and>
   editBox (onstop_part000 sample_conv (Response 200 (Some (JObj [(js ''text'', JStr (js '' hi ''))]))) recording) = js '' hi ''"
  using onstop_reply_text [of "Some (JObj [(js ''text'', JStr (js '' hi ''))])" "js '' hi ''" 200
      recording sample_conv]
    onstop_reply_text [of "Some (JObj [])" "[]" 200 recording sample_conv]
  by (simp add: text_string_def json_or_empty_def field_def value_text_def recording_def
        loaded_def trim_def is_ws_def js_def)

text \<open>
  The claim C8 itself fails: an empty \<open>text\<close> in frontend/perfume.js, and a reply without
  \<open>text\<close> in the second file, end with the status "Ready.", not with a "no text" status.
\<close>

theorem onstop_no_text_status_counterexample:
  "viewerStatus (onstop (Response 200 (Some (JObj [(js ''text'', JStr [])]))) recording) = StReady \<and>
   editBox (onstop (Response 200 (Some (JObj [(js ''text'', JStr [])]))) recording) = [] \<and>
   viewerStatus (onstop_part000 sample_conv (Response 200 (Some (JObj []))) recording) = StReady"
  by (simp add: onstop_def onstop_part000_def onstop_try_def onstop_try_part000_def
        onstop_finally_def prim_defs Let_def text_string_def json_or_empty_def field_def
        recording_def loaded_def trim_def js_def)

subsection \<open>stopSession\<close>

text \<open>
  C2, as the code has it. Whether the stop notification is answered or rejected (a rejection
  is logged), \<open>stopSession\<close> closes the held connection and unsets \<open>pc\<close>, and sets the status
  "stopped."; it leaves \<open>SESSION_ID\<close> and \<open>SESSION_TOKEN\<close> as they were.
\<close>

theorem stopSession_effect:
  "pc (stopSession f r s) = None \<and>
   conns (stopSession f r s) = (case pc s of None \<Rightarrow> conns s | Some c \<Rightarrow> (conns s)[c := False]) \<and>
   SESSION_ID (stopSession f r s) = SESSION_ID s \<and>
   SESSION_TOKEN (stopSession f r s) = SESSION_TOKEN s \<and>
   viewerStatus (stopSession f r s) = StStopped \<and>
   (r = Rejected \<longrightarrow>
      ReqLog ''viewer'' ''stop-session error'' ERROR \<in> set (issued s (stopSession f r s)))"
  by (cases r; cases f; cases "pc s")
     (simp_all add: stopSession_def prim_defs issued_def Let_def)

theorem stopSession_effect_witness:
  "pc (stopSession Frontend Rejected started) = None \<and>
   conns (stopSession Frontend Rejected started) = [False] \<and>
   ReqLog ''viewer'' ''stop-session error'' ERROR
     \<in> set (issued started (stopSession Frontend Rejected started))"
  using stopSession_effect [of Frontend Rejected started]
  by (simp add: started_simps)

text \<open>
  The claim C2 itself fails: after a start and a stop the session id and token are still
  held, and the session still counts as active.
\<close>

theorem stopSession_keeps_identifiers_counterexample:
  "SESSION_ID (stopSession Frontend (Response 200 (Some (JObj []))) started) = JStr (js ''s1'') \<and>
   SESSION_TOKEN (stopSession Frontend (Response 200 (Some (JObj []))) started) = JStr (js ''t1'') \<and>
   session_active (stopSession Frontend (Response 200 (Some (JObj []))) started)"
  by (simp add: stopSession_def prim_defs Let_def session_active_def started_simps js_def)

subsection \<open>startSession\<close>

lemma offer_present_missing:
  "map_of (rev kvs) (js ''offer_sdp'') = None \<Longrightarrow> \<not> offer_present (JObj kvs)"
  by (simp add: offer_present_def)

lemma truthy_prop_object:
  "get_prop j k = Inr v \<Longrightarrow> truthy v \<Longrightarrow> \<exists>kvs. j = JObj kvs"
  by (cases j) auto

lemma start_session_try_object:
  "start_session_try env s = (Inr j, s') \<Longrightarrow> \<exists>kvs. j = JObj kvs"
  by (auto simp: start_session_try_def Let_def dest: truthy_prop_object
        split: fetch_result.splits if_splits sum.splits)

text \<open>
  C3. When the start-session response has a status of 400 or more, or no truthy
  \<open>offer_sdp\<close> (a body without the field in particular), \<open>startSession\<close> assigns nothing:
  session id, token, offer, configuration and connection are what they were, so no session
  is active afterwards unless one was before; the second file shows its placeholder
  again (frontend/perfume.js has none and leaves it alone).
\<close>

theorem startSession_without_offer:
  assumes "start_resp env = Response http body"
    and "http \<ge> 400 \<or> \<not> offer_present (json_or_empty body)"
  shows "SESSION_ID (startSession f env s) = SESSION_ID s \<and>
         SESSION_TOKEN (startSession f env s) = SESSION_TOKEN s \<and>
         OFFER_SDP (startSession f env s) = OFFER_SDP s \<and>
         RTC_CONFIG (startSession f env s) = RTC_CONFIG s \<and>
         pc (startSession f env s) = pc s \<and>
         conns (startSession f env s) = conns s \<and>
         (\<not> session_active s \<longrightarrow> \<not> session_active (startSession f env s)) \<and>
         placeholder_display (startSession f env s) =
           (case f of Frontend \<Rightarrow> placeholder_display s | Part000 \<Rightarrow> DisplayDefault) \<and>
         viewerStatus (startSession f env s) = StInitErrorStartSession"
  using assms
  by (cases f)
     (auto simp: startSession_def start_session_try_def prim_defs offer_present_def
        session_active_def Let_def split: sum.splits)

theorem startSession_without_offer_witness:
  "SESSION_ID (startSession Part000 env_no_offer started) = JStr (js ''s1'') \<and>
   pc (startSession Part000 env_no_offer started) = Some 0 \<and>
   \<not> session_active (startSession Part000 env_no_offer loaded) \<and>
   placeholder_display (startSession Part000 env_no_offer loaded) = DisplayDefault \<and>
   viewerStatus (startSession Frontend (env_ok\<lparr>start_resp := Response 500 None\<rparr>) loaded) =
     StInitErrorStartSession"
proof -
  have a: "start_resp env_no_offer =
        Response 200 (Some (JObj [(js ''session_id'', JStr (js ''s1'')),
                                  (js ''session_token'', JStr (js ''t1''))]))"
    by (simp add: env_no_offer_def env_ok_def)
  have b: "\<not> offer_present (json_or_empty (Some (JObj [(js ''session_id'', JStr (js ''s1'')),
                                  (js ''session_token'', JStr (js ''t1''))])))"
    by (simp add: json_or_empty_def offer_present_missing js_def)
  have c: "\<not> session_active loaded"
    by (simp add: session_active_def loaded_def)
  show ?thesis
    using startSession_without_offer [OF a, of Part000 started]
      startSession_without_offer [OF a, of Part000 loaded]
      startSession_without_offer [of "env_ok\<lparr>start_resp := Response 500 None\<rparr>" 500 None
        Frontend loaded]
      b c
    by (simp add: started_simps)
qed

lemma start_session_try_fails:
  assumes "request_fails env"
  shows "\<exists>e. start_session_try env s =
           (Inl e, case start_resp env of
                     Rejected \<Rightarrow> issue ReqStartSession s
                   | Response http body \<Rightarrow>
                       flog ''viewer'' ''/api/start-session response'' INFO
                         (issue ReqStartSession s))"
  using assms
  by (auto simp: start_session_try_def request_fails_def offer_present_def Let_def
        split: fetch_result.splits sum.splits)

lemma start_session_try_ok:
  assumes "\<not> request_fails env"
  shows "\<exists>http body. start_resp env = Response http body \<and>
           start_session_try env s =
             (Inr (json_or_empty body),
              flog ''viewer'' ''/api/start-session response'' INFO (issue ReqStartSession s))"
  using assms
  by (auto simp: start_session_try_def request_fails_def offer_present_def Let_def
        split: fetch_result.splits sum.splits)


lemma negotiate_fails:
  assumes "negotiation_fails env"
  shows "\<exists>e s'. negotiate env s = (Threw e, s') \<and>
           prefix (net s) (net s') \<and> prefix (uiDebug s) (uiDebug s')"
  using assms ice_wait_resolves [of "ice_initial env" "ice_events env"]
  by (auto simp: negotiate_def negotiation_fails_def prim_defs Let_def
        split: fetch_result.splits option.splits)

lemma negotiate_ok:
  assumes "\<not> negotiation_fails env"
  shows "\<exists>s'. negotiate env s = (Completed, s') \<and> viewerStatus s' = StWaitingForMedia"
  using assms ice_wait_resolves [of "ice_initial env" "ice_events env"]
  by (auto simp: negotiate_def negotiation_fails_def prim_defs Let_def
        split: fetch_result.splits option.splits)

lemma startSession_request_fails:
  assumes "request_fails env"
  shows "startSession f env s =
           show_placeholder f
             (setStatus StInitErrorStartSession
               (flog ''viewer'' ''start-session failed'' ERROR
                 (case start_resp env of
                    Rejected \<Rightarrow>
                      issue ReqStartSession
                        (setStatus StRequestingViewerParams
                          (flog ''viewer'' ''Start button pressed'' INFO (hide_placeholder f s)))
                  | Response http body \<Rightarrow>
                      flog ''viewer'' ''/api/start-session response'' INFO
                        (issue ReqStartSession
                          (setStatus StRequestingViewerParams
                            (flog ''viewer'' ''Start button pressed'' INFO
                              (hide_placeholder f s)))))))"
proof -
  let ?s3 = "setStatus StRequestingViewerParams
               (flog ''viewer'' ''Start button pressed'' INFO (hide_placeholder f s))"
  obtain e where "start_session_try env ?s3 =
           (Inl e, case start_resp env of
                     Rejected \<Rightarrow> issue ReqStartSession ?s3
                   | Response http body \<Rightarrow>
                       flog ''viewer'' ''/api/start-session response'' INFO
                         (issue ReqStartSession ?s3))"
    using start_session_try_fails [OF assms] by blast
  then show ?thesis
    by (simp add: startSession_def Let_def)
qed

lemma startSession_negotiation_fails:
  assumes "\<not> request_fails env" and "negotiation_fails env"
  shows "\<exists>s5. prefix (net s) (net s5) \<and> prefix (uiDebug s) (uiDebug s5) \<and>
           startSession f env s =
             show_placeholder f
               (setStatus StInitErrorWebrtc
                 (flog ''viewer'' ''webrtc/start error'' ERROR s5))"
proof -
  let ?s3 = "setStatus StRequestingViewerParams
               (flog ''viewer'' ''Start button pressed'' INFO (hide_placeholder f s))"
  let ?s4 = "flog ''viewer'' ''/api/start-session response'' INFO (issue ReqStartSession ?s3)"
  obtain http body where try1: "start_session_try env ?s3 = (Inr (json_or_empty body), ?s4)"
    using start_session_try_ok [OF assms(1)] by blast
  let ?sa = "assign_session (json_or_empty body) ?s4"
  obtain e s5 where neg: "negotiate env ?sa = (Threw e, s5)"
    and pre: "prefix (net ?sa) (net s5)" "prefix (uiDebug ?sa) (uiDebug s5)"
    using negotiate_fails [OF assms(2)] by blast
  have "prefix (net s) (net ?sa)" "prefix (uiDebug s) (uiDebug ?sa)"
    by (cases f; simp add: assign_session_def prim_defs)+
  with pre have "prefix (net s) (net s5)" "prefix (uiDebug s) (uiDebug s5)"
    using prefix_order.trans by blast+
  moreover have "startSession f env s =
             show_placeholder f
               (setStatus StInitErrorWebrtc
                 (flog ''viewer'' ''webrtc/start error'' ERROR s5))"
    using try1 neg by (simp add: startSession_def Let_def)
  ultimately show ?thesis by blast
qed

text \<open>
  C1, as the code has it. Whichever step of \<open>startSession\<close> fails, the handler logs the
  error (a line in the debug box and a post to the log endpoint, level ERROR), sets an error
  status, and the second file shows its placeholder again; when the failing step is the
  start-session request, session id, token and connection are what they were before.
\<close>

theorem startSession_failure:
  assumes "request_fails env \<or> negotiation_fails env"
  shows "ReqLog ''viewer''
           (if request_fails env then ''start-session failed'' else ''webrtc/start error'') ERROR
           \<in> set (issued s (startSession f env s)) \<and>
         (''viewer'', if request_fails env then ''start-session failed'' else ''webrtc/start error'')
           \<in> set (drop (length (uiDebug s)) (uiDebug (startSession f env s))) \<and>
         viewerStatus (startSession f env s) =
           (if request_fails env then StInitErrorStartSession else StInitErrorWebrtc) \<and>
         (f = Part000 \<longrightarrow> placeholder_display (startSession f env s) = DisplayDefault) \<and>
         (request_fails env \<longrightarrow>
            SESSION_ID (startSession f env s) = SESSION_ID s \<and>
            SESSION_TOKEN (startSession f env s) = SESSION_TOKEN s \<and>
            pc (startSession f env s) = pc s \<and>
            conns (startSession f env s) = conns s)"
proof (cases "request_fails env")
  case True
  show ?thesis
    unfolding startSession_request_fails [OF True]
    using True by (cases f; cases "start_resp env") (simp_all add: prim_defs issued_def)
next
  case False
  with assms have nf: "negotiation_fails env" by simp
  obtain s5 where pre: "prefix (net s) (net s5)" "prefix (uiDebug s) (uiDebug s5)"
    and eq: "startSession f env s =
             show_placeholder f
               (setStatus StInitErrorWebrtc
                 (flog ''viewer'' ''webrtc/start error'' ERROR s5))"
    using startSession_negotiation_fails [OF False nf] by blast
  from pre obtain n d where nd: "net s5 = net s @ n" "uiDebug s5 = uiDebug s @ d"
    by (auto simp: prefix_def)
  show ?thesis
    unfolding eq using False nd by (cases f) (simp_all add: prim_defs issued_def)
qed

theorem startSession_failure_witness:
  "ReqLog ''viewer'' ''webrtc/start error'' ERROR
     \<in> set (issued loaded (startSession Part000 env_offer_rejected loaded)) \<and>
   viewerStatus (startSession Part000 env_offer_rejected loaded) = StInitErrorWebrtc \<and>
   placeholder_display (startSession Part000 env_offer_rejected loaded) = DisplayDefault \<and>
   viewerStatus (startSession Part000 env_no_offer loaded) = StInitErrorStartSession \<and>
   SESSION_ID (startSession Part000 env_no_offer loaded) = JNull \<and>
   pc (startSession Part000 env_no_offer loaded) = None"
proof -
  have a: "negotiation_fails env_offer_rejected" "\<not> request_fails env_offer_rejected"
    by (simp_all add: negotiation_fails_def request_fails_def offer_present_def
          env_offer_rejected_def env_ok_def start_resp_s1_def json_or_empty_def js_def)
  have b: "request_fails env_no_offer"
    by (simp add: request_fails_def offer_present_def env_no_offer_def env_ok_def
          json_or_empty_def js_def)
  show ?thesis
    using startSession_failure [of env_offer_rejected loaded Part000]
      startSession_failure [of env_no_offer loaded Part000] a b
    by (simp add: loaded_def)
qed

text \<open>
  The claim C1 itself fails: when a step after the start-session request fails (here
  applying the offer), the identifiers of the response stay assigned and the new connection
  stays held and open.
\<close>

theorem startSession_partial_session_counterexample:
  "negotiation_fails env_offer_rejected \<and>
   viewerStatus (startSession Frontend env_offer_rejected loaded) = StInitErrorWebrtc \<and>
   SESSION_ID (startSession Frontend env_offer_rejected loaded) = JStr (js ''s1'') \<and>
   SESSION_TOKEN (startSession Frontend env_offer_rejected loaded) = JStr (js ''t1'') \<and>
   pc (startSession Frontend env_offer_rejected loaded) = Some 0 \<and>
   conns (startSession Frontend env_offer_rejected loaded) = [True]"
  by (simp add: negotiation_fails_def env_offer_rejected_def env_ok_def start_resp_s1_def
        loaded_def handler_defs prim_defs js_def)

subsection \<open>At most one connection\<close>

lemma open_after_snoc: "open_after (h @ [e]) = apply_event e (open_after h)"
  by (simp add: open_after_def)

lemma finite_open_after: "finite (open_after h)"
proof (induction h rule: rev_induct)
  case Nil
  show ?case by (simp add: open_after_def)
next
  case (snoc e h)
  then show ?case by (cases e) (simp_all add: open_after_snoc)
qed

lemma conn_inv_frame:
  "pc s' = pc s \<Longrightarrow> pc_history s' = pc_history s \<Longrightarrow> conn_inv s \<Longrightarrow> conn_inv s'"
  by (simp add: conn_inv_def)

lemma conn_inv_closed:
  assumes "conn_inv s" and "pc_history s' = pc_history s @ closing (pc s)"
  shows "conn_inv s'" and "open_after (pc_history s') = {}"
proof -
  have sub: "open_after (pc_history s) \<subseteq> set_option (pc s)"
    using assms(1) by (simp add: conn_inv_def)
  show e: "open_after (pc_history s') = {}"
    using sub assms(2) by (cases "pc s") (auto simp: closing_def open_after_snoc)
  have "card (open_after h) \<le> 1" if "prefix h (pc_history s')" for h
  proof (cases "prefix h (pc_history s)")
    case True
    then show ?thesis using assms(1) by (simp add: conn_inv_def)
  next
    case False
    with that assms(2) have "h = pc_history s'"
      by (cases "pc s") (auto simp: closing_def)
    then show ?thesis using e by simp
  qed
  then show "conn_inv s'"
    using e by (simp add: conn_inv_def)
qed

lemma conn_inv_created:
  assumes "conn_inv s" and "open_after (pc_history s) = {}"
    and "pc_history s' = pc_history s @ [Created n]" and "pc s' = Some n"
  shows "conn_inv s'"
proof -
  have o: "open_after (pc_history s') = {n}"
    using assms(2,3) by (simp add: open_after_snoc)
  have "card (open_after h) \<le> 1" if "prefix h (pc_history s')" for h
  proof (cases "prefix h (pc_history s)")
    case True
    then show ?thesis using assms(1) by (simp add: conn_inv_def)
  next
    case False
    with that assms(3) have "h = pc_history s'" by auto
    then show ?thesis using o by simp
  qed
  then show ?thesis
    using o assms(4) by (simp add: conn_inv_def)
qed

lemma negotiate_pc:
  "pc (snd (negotiate env s)) = (if pc_ctor_ok env then Some (length (conns s)) else pc s)"
  "pc_history (snd (negotiate env s)) =
     pc_history s @ closing (pc s) @
       (if pc_ctor_ok env then [Created (length (conns s))] else [])"
  by (simp_all add: negotiate_def Let_def split: option.splits fetch_result.splits)

lemma start_session_try_pc:
  "pc (snd (start_session_try env s)) = pc s"
  "pc_history (snd (start_session_try env s)) = pc_history s"
  "conns (snd (start_session_try env s)) = conns s"
  by (simp_all add: start_session_try_def Let_def split: fetch_result.splits sum.splits)

lemma start_session_try_request_fails:
  "request_fails env = (\<exists>e. fst (start_session_try env s) = Inl e)"
  by (auto simp: start_session_try_def request_fails_def offer_present_def Let_def
        split: fetch_result.splits sum.splits)

lemma startSession_pc:
  "pc (startSession f env s) =
     (if request_fails env \<or> \<not> pc_ctor_ok env then pc s else Some (length (conns s)))"
  "pc_history (startSession f env s) =
     pc_history s @
       (if request_fails env then []
        else closing (pc s) @ (if pc_ctor_ok env then [Created (length (conns s))] else []))"
proof -
  let ?s3 = "setStatus StRequestingViewerParams
               (flog ''viewer'' ''Start button pressed'' INFO (hide_placeholder f s))"
  obtain r1 s4 where t: "start_session_try env ?s3 = (r1, s4)"
    by (cases "start_session_try env ?s3")
  have s4: "pc s4 = pc s" "pc_history s4 = pc_history s" "conns s4 = conns s"
    using start_session_try_pc [of env ?s3] t by simp_all
  have rf: "request_fails env = (\<exists>e. r1 = Inl e)"
    using start_session_try_request_fails [of env ?s3] t by simp
  show "pc (startSession f env s) =
     (if request_fails env \<or> \<not> pc_ctor_ok env then pc s else Some (length (conns s)))"
  proof (cases r1)
    case (Inl e)
    then show ?thesis using t s4 rf by (simp add: startSession_def Let_def)
  next
    case (Inr j)
    obtain o1 s5 where n: "negotiate env (assign_session j s4) = (o1, s5)"
      by (cases "negotiate env (assign_session j s4)")
    have "pc s5 = (if pc_ctor_ok env then Some (length (conns s)) else pc s)"
      using negotiate_pc(1) [of env "assign_session j s4"] n s4 by simp
    then show ?thesis
      using t Inr n rf by (cases o1) (simp_all add: startSession_def Let_def)
  qed
  show "pc_history (startSession f env s) =
     pc_history s @
       (if request_fails env then []
        else closing (pc s) @ (if pc_ctor_ok env then [Created (length (conns s))] else []))"
  proof (cases r1)
    case (Inl e)
    then show ?thesis using t s4 rf by (simp add: startSession_def Let_def)
  next
    case (Inr j)
    obtain o1 s5 where n: "negotiate env (assign_session j s4) = (o1, s5)"
      by (cases "negotiate env (assign_session j s4)")
    have "pc_history s5 = pc_history s @ closing (pc s) @
       (if pc_ctor_ok env then [Created (length (conns s))] else [])"
      using negotiate_pc(2) [of env "assign_session j s4"] n s4 by simp
    then show ?thesis
      using t Inr n rf by (cases o1) (simp_all add: startSession_def Let_def)
  qed
qed

lemma stopSession_pc:
  "pc (stopSession f r s) = None"
  "pc_history (stopSession f r s) = pc_history s @ closing (pc s)"
  by (cases r; simp add: stopSession_def Let_def)+

lemma conn_inv_startSession: "conn_inv s \<Longrightarrow> conn_inv (startSession f env s)"
proof -
  assume inv: "conn_inv s"
  let ?s' = "startSession f env s"
  show "conn_inv ?s'"
  proof (cases "request_fails env")
    case True
    then show ?thesis
      using inv conn_inv_frame [of ?s' s] by (simp add: startSession_pc)
  next
    case False
    let ?c = "s\<lparr>pc_history := pc_history s @ closing (pc s)\<rparr>"
    have c: "conn_inv ?c" "open_after (pc_history ?c) = {}"
      using conn_inv_closed [OF inv, of ?c] by simp_all
    show ?thesis
    proof (cases "pc_ctor_ok env")
      case True
      show ?thesis
        using conn_inv_created [OF c, of ?s' "length (conns s)"] False True
        by (simp add: startSession_pc)
    next
      case nok: False
      show ?thesis
        using conn_inv_frame [of ?s' ?c] c(1) False nok by (simp add: startSession_pc)
    qed
  qed
qed

lemma conn_inv_stopSession: "conn_inv s \<Longrightarrow> conn_inv (stopSession f r s)"
proof -
  assume inv: "conn_inv s"
  have "open_after (pc_history (stopSession f r s)) = {}"
    and "conn_inv ((stopSession f r s)\<lparr>pc := pc s\<rparr>)"
    using conn_inv_closed [OF inv, of "(stopSession f r s)\<lparr>pc := pc s\<rparr>"]
    by (simp_all add: stopSession_pc)
  then show ?thesis
    by (simp add: conn_inv_def)
qed

lemma other_handlers_pc:
  "pc (sendBtn_click r s) = pc s \<and> pc_history (sendBtn_click r s) = pc_history s"
  "pc (gptBtn_click r s) = pc s \<and> pc_history (gptBtn_click r s) = pc_history s"
  "pc (gptBtn_click_part000 r s) = pc s \<and> pc_history (gptBtn_click_part000 r s) = pc_history s"
  "pc (explainPerfume name r s) = pc s \<and> pc_history (explainPerfume name r s) = pc_history s"
  "pc (onstop r s) = pc s \<and> pc_history (onstop r s) = pc_history s"
  "pc (onstop_part000 conv r s) = pc s \<and> pc_history (onstop_part000 conv r s) = pc_history s"
  by (simp_all add: sendBtn_click_def gptBtn_click_def gptBtn_try_def gptBtn_click_part000_def
        gptBtn_try_part000_def explainPerfume_def explain_begin_def explain_complete_def
        explain_try_def show_and_forward_def onstop_def onstop_try_def onstop_part000_def
        onstop_try_part000_def onstop_finally_def Let_def
        split: fetch_result.splits sum.splits option.splits)

lemma conn_inv_step: "conn_inv s \<Longrightarrow> conn_inv (step a s)"
  by (cases a)
     (auto simp: conn_inv_startSession conn_inv_stopSession other_handlers_pc
        intro: conn_inv_frame)

lemma conn_inv_run: "conn_inv s \<Longrightarrow> conn_inv (run as s)"
  by (induction as arbitrary: s) (simp_all add: run_def conn_inv_step)

lemma conn_inv_loaded: "conn_inv loaded"
  by (simp add: conn_inv_def loaded_def open_after_def)

lemma heap_inv_frame:
  "pc s' = pc s \<Longrightarrow> conns s' = conns s \<Longrightarrow> pc_history s' = pc_history s \<Longrightarrow>
   heap_inv s' = heap_inv s"
  by (simp add: heap_inv_def)

lemma heap_inv_prims [simp]:
  "heap_inv (setStatus m s) = heap_inv s"
  "heap_inv (issue q s) = heap_inv s"
  "heap_inv (flog a t l s) = heap_inv s"
  "heap_inv (show_placeholder f s) = heap_inv s"
  "heap_inv (hide_placeholder f s) = heap_inv s"
  "heap_inv (assign_session j s) = heap_inv s"
  "heap_inv (s\<lparr>gate_display := d\<rparr>) = heap_inv s"
  by (simp_all add: heap_inv_def)

lemma heap_inv_pc_close: "heap_inv s \<Longrightarrow> heap_inv (pc_close s)"
proof (cases "pc s")
  case None
  then show "heap_inv s \<Longrightarrow> heap_inv (pc_close s)"
    by (simp add: pc_close_def)
next
  case (Some c)
  assume inv: "heap_inv s"
  have "{i. i < length (conns s) \<and> (conns s)[c := False] ! i} =
        {i. i < length (conns s) \<and> conns s ! i} - {c}"
    by (cases "c < length (conns s)") (auto simp: nth_list_update split: if_splits)
  then show "heap_inv (pc_close s)"
    using inv Some by (simp add: heap_inv_def pc_close_def open_after_snoc)
qed

lemma heap_inv_pc_new: "heap_inv s \<Longrightarrow> heap_inv (pc_new s)"
proof -
  assume inv: "heap_inv s"
  have "{i. i < Suc (length (conns s)) \<and> (conns s @ [True]) ! i} =
        insert (length (conns s)) {i. i < length (conns s) \<and> conns s ! i}"
    by (auto simp: nth_append less_Suc_eq)
  then show "heap_inv (pc_new s)"
    using inv by (simp add: heap_inv_def pc_new_def open_after_snoc)
qed

lemma heap_inv_unset: "heap_inv s \<Longrightarrow> heap_inv (s\<lparr>pc := None\<rparr>)"
  by (simp add: heap_inv_def)

lemma heap_inv_negotiate: "heap_inv s \<Longrightarrow> heap_inv (snd (negotiate env s))"
  by (simp add: negotiate_def Let_def heap_inv_pc_close heap_inv_pc_new
        split: option.splits fetch_result.splits)

lemma heap_inv_start_session_try: "heap_inv (snd (start_session_try env s)) = heap_inv s"
  by (simp add: start_session_try_def Let_def split: fetch_result.splits sum.splits)

lemma heap_inv_startSession: "heap_inv s \<Longrightarrow> heap_inv (startSession f env s)"
proof -
  assume inv: "heap_inv s"
  let ?s3 = "setStatus StRequestingViewerParams
               (flog ''viewer'' ''Start button pressed'' INFO (hide_placeholder f s))"
  obtain r1 s4 where t: "start_session_try env ?s3 = (r1, s4)"
    by (cases "start_session_try env ?s3")
  have s4: "heap_inv s4"
    using heap_inv_start_session_try [of env ?s3] t inv by simp
  show ?thesis
  proof (cases r1)
    case (Inl e)
    then show ?thesis using t s4 by (simp add: startSession_def Let_def)
  next
    case (Inr j)
    obtain o1 s5 where n: "negotiate env (assign_session j s4) = (o1, s5)"
      by (cases "negotiate env (assign_session j s4)")
    have "heap_inv s5"
      using heap_inv_negotiate [of "assign_session j s4" env] n s4 by simp
    then show ?thesis
      using t Inr n by (cases o1) (simp_all add: startSession_def Let_def)
  qed
qed

lemma heap_inv_stopSession: "heap_inv s \<Longrightarrow> heap_inv (stopSession f r s)"
  by (cases r) (simp_all add: stopSession_def Let_def heap_inv_pc_close heap_inv_unset)

lemma other_handlers_conns:
  "conns (sendBtn_click r s) = conns s"
  "conns (gptBtn_click r s) = conns s"
  "conns (gptBtn_click_part000 r s) = conns s"
  "conns (explainPerfume name r s) = conns s"
  "conns (onstop r s) = conns s"
  "conns (onstop_part000 conv r s) = conns s"
  by (simp_all add: sendBtn_click_def gptBtn_click_def gptBtn_try_def gptBtn_click_part000_def
        gptBtn_try_part000_def explainPerfume_def explain_begin_def explain_complete_def
        explain_try_def show_and_forward_def onstop_def onstop_try_def onstop_part000_def
        onstop_try_part000_def onstop_finally_def Let_def
        split: fetch_result.splits sum.splits option.splits)

lemma heap_inv_others:
  "heap_inv (sendBtn_click r s) = heap_inv s"
  "heap_inv (gptBtn_click r s) = heap_inv s"
  "heap_inv (gptBtn_click_part000 r s) = heap_inv s"
  "heap_inv (explainPerfume name r s) = heap_inv s"
  "heap_inv (onstop r s) = heap_inv s"
  "heap_inv (onstop_part000 conv r s) = heap_inv s"
  by (simp_all add: heap_inv_def other_handlers_pc other_handlers_conns)

lemma heap_inv_step: "heap_inv s \<Longrightarrow> heap_inv (step a s)"
  by (cases a)
     (simp_all add: heap_inv_startSession heap_inv_stopSession heap_inv_others)

lemma heap_inv_run: "heap_inv s \<Longrightarrow> heap_inv (run as s)"
  by (induction as arbitrary: s) (simp_all add: run_def heap_inv_step)

lemma heap_inv_loaded: "heap_inv loaded"
  by (simp add: heap_inv_def loaded_def open_after_def)

lemma open_connection_is_held:
  assumes "c < length (conns (run as loaded))" and "conns (run as loaded) ! c"
  shows "pc (run as loaded) = Some c"
proof -
  have "c \<in> open_after (pc_history (run as loaded))"
    using heap_inv_run [OF heap_inv_loaded, of as] assms by (simp add: heap_inv_def)
  then show ?thesis
    using conn_inv_run [OF conn_inv_loaded, of as] by (auto simp: conn_inv_def)
qed

text \<open>
  C4. In every run of the page from its loaded state, at every point of the connection
  history at most one connection is open, an open connection is the one \<open>pc\<close> holds, and
  a connection object that is not closed is the one \<open>pc\<close> holds; a \<open>startSession\<close> that gets
  its offer closes the held connection, if any, before it creates the new one.
\<close>

theorem at_most_one_connection:
  "(prefix h (pc_history (run as loaded)) \<longrightarrow>
      finite (open_after h) \<and> card (open_after h) \<le> 1) \<and>
   open_after (pc_history (run as loaded)) \<subseteq> set_option (pc (run as loaded)) \<and>
   (c < length (conns (run as loaded)) \<and> conns (run as loaded) ! c \<longrightarrow>
      pc (run as loaded) = Some c) \<and>
   pc_history (startSession f env s) =
     pc_history s @
       (if request_fails env then []
        else closing (pc s) @ (if pc_ctor_ok env then [Created (length (conns s))] else []))"
  using conn_inv_run [OF conn_inv_loaded, of as] finite_open_after [of h]
    open_connection_is_held [of c as]
  by (simp add: conn_inv_def startSession_pc)

subsection \<open>Chat passthrough, tile explain\<close>

lemma reply_of_response: "reply_of (JObj [(js ''response'', JStr r)]) = Inr (trim r)"
  by (simp add: reply_of_def trim_def)

lemma reply_of_part000_response:
  "reply_of_part000 (JObj [(js ''response'', JStr r)]) = Inr (trim r)"
  by (simp add: reply_of_part000_def trim_def)

lemma trim_blank:
  assumes "\<forall>c\<in>set r. is_ws c"
  shows "trim r = []"
proof -
  have d: "dropWhile is_ws r = []"
    using assms by simp
  show ?thesis
    unfolding trim_def d by simp
qed

lemma reply_of_missing:
  "map_of (rev kvs) (js ''response'') = None \<Longrightarrow> reply_of (JObj kvs) = Inr []"
  "map_of (rev kvs) (js ''response'') = None \<Longrightarrow> reply_of_part000 (JObj kvs) = Inr []"
  by (simp_all add: reply_of_def reply_of_part000_def)

lemma show_and_forward_proj:
  "editBox (show_and_forward reply s) = (if reply \<noteq> [] then reply else editBox s)"
  "net (show_and_forward reply s) =
     net s @ (if reply \<noteq> [] \<and> session_active s
              then [ReqSendTask (SESSION_ID s) (SESSION_TOKEN s) reply] else [])"
  by (simp_all add: show_and_forward_def session_active_def Let_def)

lemmas chat_defs =
  gptBtn_click_def gptBtn_try_def gptBtn_click_part000_def gptBtn_try_part000_def
  show_and_forward_proj chat_text_def issued_def Let_def

lemma filter_is_chat_drop [simp]:
  "filter is_chat (drop k [ReqSendTask a b c]) = []"
  by (cases k) simp_all

lemma filter_is_chat_forward [simp]:
  "filter is_chat (drop n (net (show_and_forward reply s))) = filter is_chat (drop n (net s))"
  by (simp add: show_and_forward_proj)

lemma gptBtn_click_chat:
  "filter is_chat (issued s (gptBtn_click r s)) =
     [ReqChat (if trim (editBox s) = [] then js ''Hello'' else trim (editBox s))]"
proof (cases r)
  case Rejected
  then show ?thesis
    by (simp add: gptBtn_click_def gptBtn_try_def chat_text_def issued_def Let_def)
next
  case (Response http body)
  show ?thesis
  proof (cases "reply_of (json_or_empty body)")
    case (Inl e)
    with Response show ?thesis
      by (simp add: gptBtn_click_def gptBtn_try_def chat_text_def issued_def Let_def)
  next
    case (Inr reply)
    with Response show ?thesis
      by (simp add: gptBtn_click_def gptBtn_try_def chat_text_def issued_def Let_def)
  qed
qed

lemma gptBtn_click_part000_chat:
  "filter is_chat (issued s (gptBtn_click_part000 r s)) =
     [ReqChat (if trim (editBox s) = [] then js ''Hello'' else trim (editBox s))]"
proof (cases r)
  case Rejected
  then show ?thesis
    by (simp add: gptBtn_click_part000_def gptBtn_try_part000_def chat_text_def issued_def Let_def)
next
  case (Response http body)
  show ?thesis
  proof (cases body)
    case None
    with Response show ?thesis
      by (simp add: gptBtn_click_part000_def gptBtn_try_part000_def chat_text_def issued_def
            Let_def)
  next
    case (Some j)
    with Response show ?thesis
      by (cases "reply_of_part000 j")
         (simp_all add: gptBtn_click_part000_def gptBtn_try_part000_def chat_text_def issued_def
            Let_def)
  qed
qed

text \<open>
  C7, as the code has it. The text submitted to the chat backend is the trimmed edit text,
  or "Hello" when that is empty. When the response carries a reply that is not empty after
  trimming, and (in frontend/perfume.js, which checks it first) its status is below 400, the
  trimmed reply becomes the content of the edit field and, if a session is active, goes to
  the session in one send-task request; without a session no send-task request goes out.
\<close>

theorem chat_passthrough:
  "filter is_chat (issued s (gptBtn_click r s)) =
     [ReqChat (if trim (editBox s) = [] then js ''Hello'' else trim (editBox s))] \<and>
   filter is_chat (issued s (gptBtn_click_part000 r s)) =
     [ReqChat (if trim (editBox s) = [] then js ''Hello'' else trim (editBox s))] \<and>
   (http < 400 \<and> reply_of (json_or_empty body) = Inr reply \<and> reply \<noteq> [] \<longrightarrow>
      editBox (gptBtn_click (Response http body) s) = reply \<and>
      filter is_send_task (issued s (gptBtn_click (Response http body) s)) =
        (if session_active s then [ReqSendTask (SESSION_ID s) (SESSION_TOKEN s) reply] else [])) \<and>
   (reply_of_part000 j = Inr reply \<and> reply \<noteq> [] \<longrightarrow>
      editBox (gptBtn_click_part000 (Response http (Some j)) s) = reply \<and>
      filter is_send_task (issued s (gptBtn_click_part000 (Response http (Some j)) s)) =
        (if session_active s then [ReqSendTask (SESSION_ID s) (SESSION_TOKEN s) reply] else []))"
proof -
  have "filter is_chat (issued s (gptBtn_click r s)) =
     [ReqChat (if trim (editBox s) = [] then js ''Hello'' else trim (editBox s))]"
    by (rule gptBtn_click_chat)
  moreover have "filter is_chat (issued s (gptBtn_click_part000 r s)) =
     [ReqChat (if trim (editBox s) = [] then js ''Hello'' else trim (editBox s))]"
    by (rule gptBtn_click_part000_chat)
  moreover have "http < 400 \<and> reply_of (json_or_empty body) = Inr reply \<and> reply \<noteq> [] \<longrightarrow>
      editBox (gptBtn_click (Response http body) s) = reply \<and>
      filter is_send_task (issued s (gptBtn_click (Response http body) s)) =
        (if session_active s then [ReqSendTask (SESSION_ID s) (SESSION_TOKEN s) reply] else [])"
    by (auto simp: chat_defs)
  moreover have "reply_of_part000 j = Inr reply \<and> reply \<noteq> [] \<longrightarrow>
      editBox (gptBtn_click_part000 (Response http (Some j)) s) = reply \<and>
      filter is_send_task (issued s (gptBtn_click_part000 (Response http (Some j)) s)) =
        (if session_active s then [ReqSendTask (SESSION_ID s) (SESSION_TOKEN s) reply] else [])"
    by (auto simp: chat_defs)
  ultimately show ?thesis by blast
qed

theorem chat_passthrough_witness:
  "filter is_chat (issued started (gptBtn_click Rejected started)) = [ReqChat (js ''Hello'')] \<and>
   editBox (gptBtn_click (Response 200 (Some (JObj [(js ''response'', JStr (js ''Hi there''))])))
              (started\<lparr>editBox := js ''Hello''\<rparr>)) = js ''Hi there'' \<and>
   filter is_send_task
     (issued (started\<lparr>editBox := js ''Hello''\<rparr>)
        (gptBtn_click (Response 200 (Some (JObj [(js ''response'', JStr (js ''Hi there''))])))
           (started\<lparr>editBox := js ''Hello''\<rparr>))) =
     [ReqSendTask (JStr (js ''s1'')) (JStr (js ''t1'')) (js ''Hi there'')] \<and>
   editBox (gptBtn_click_part000
              (Response 200 (Some (JObj [(js ''response'', JStr (js ''Hi there''))])))
              (started\<lparr>editBox := js ''Hello''\<rparr>)) = js ''Hi there''"
proof -
  have r: "reply_of (json_or_empty (Some (JObj [(js ''response'', JStr (js ''Hi there''))]))) =
        Inr (js ''Hi there'')"
    "reply_of_part000 (JObj [(js ''response'', JStr (js ''Hi there''))]) = Inr (js ''Hi there'')"
    by (simp_all add: reply_of_def reply_of_part000_def json_or_empty_def trim_def
          is_ws_def js_def)
  have a: "session_active (started\<lparr>editBox := js ''Hello''\<rparr>)"
    by (simp add: session_active_def started_simps js_def)
  have n: "js ''Hi there'' \<noteq> []" "trim (editBox started) = []"
    by (simp_all add: js_def started_simps trim_def)
  show ?thesis
    using chat_passthrough [of started Rejected 200
        "Some (JObj [(js ''response'', JStr (js ''Hi there''))])" "js ''Hi there''"
        "JObj [(js ''response'', JStr (js ''Hi there''))]"]
      chat_passthrough [of "started\<lparr>editBox := js ''Hello''\<rparr>" Rejected 200
        "Some (JObj [(js ''response'', JStr (js ''Hi there''))])" "js ''Hi there''"
        "JObj [(js ''response'', JStr (js ''Hi there''))]"]
      r a n
    by (simp add: started_simps)
qed

text \<open>
  The claim C7 itself fails in frontend/perfume.js: a response with status 500 and the
  reply "Hi there" leaves "Hello" in the edit field and forwards nothing, with a session
  active.
\<close>

theorem chat_error_status_counterexample:
  "reply_of (json_or_empty (Some (JObj [(js ''response'', JStr (js ''Hi there''))]))) =
     Inr (js ''Hi there'') \<and>
   session_active (started\<lparr>editBox := js ''Hello''\<rparr>) \<and>
   editBox (gptBtn_click (Response 500 (Some (JObj [(js ''response'', JStr (js ''Hi there''))])))
              (started\<lparr>editBox := js ''Hello''\<rparr>)) = js ''Hello'' \<and>
   filter is_send_task
     (issued (started\<lparr>editBox := js ''Hello''\<rparr>)
        (gptBtn_click (Response 500 (Some (JObj [(js ''response'', JStr (js ''Hi there''))])))
           (started\<lparr>editBox := js ''Hello''\<rparr>))) = []"
  by (simp add: chat_defs session_active_def reply_of_def json_or_empty_def started_simps
        trim_def is_ws_def js_def)

text \<open>
  C10. On a reply that is empty after trimming (missing, empty or whitespace only), the
  block that shows and forwards the reply changes the status indicator and nothing else.
  So the chat handlers of both files and the completion of \<open>explainPerfume\<close> leave the edit
  field as it was and issue no send-task request, also with a session active; over the
  whole of \<open>explainPerfume\<close> the edit field holds the tile's name and the one send-task
  request is the one for that name.
\<close>

theorem blank_reply_frame:
  "show_and_forward [] s = s\<lparr>viewerStatus := StReady\<rparr> \<and>
   ((\<forall>c\<in>set r. is_ws c) \<longrightarrow>
      reply_of (JObj [(js ''response'', JStr r)]) = Inr [] \<and>
      reply_of_part000 (JObj [(js ''response'', JStr r)]) = Inr []) \<and>
   (reply_of (json_or_empty body) = Inr [] \<longrightarrow>
      editBox (gptBtn_click (Response http body) s) = editBox s \<and>
      filter is_send_task (issued s (gptBtn_click (Response http body) s)) = [] \<and>
      editBox (explain_complete (Response http body) s) = editBox s \<and>
      filter is_send_task (issued s (explain_complete (Response http body) s)) = [] \<and>
      (trim name \<noteq> [] \<longrightarrow>
         editBox (explainPerfume name (Response http body) s) = trim name \<and>
         filter is_send_task (issued s (explainPerfume name (Response http body) s)) =
           (if session_active s
            then [ReqSendTask (SESSION_ID s) (SESSION_TOKEN s) (trim name)] else []))) \<and>
   (reply_of_part000 j = Inr [] \<longrightarrow>
      editBox (gptBtn_click_part000 (Response http (Some j)) s) = editBox s \<and>
      filter is_send_task (issued s (gptBtn_click_part000 (Response http (Some j)) s)) = [])"
proof -
  have "show_and_forward [] s = s\<lparr>viewerStatus := StReady\<rparr>"
    by (simp add: show_and_forward_def setStatus_def)
  moreover have "(\<forall>c\<in>set r. is_ws c) \<longrightarrow>
      reply_of (JObj [(js ''response'', JStr r)]) = Inr [] \<and>
      reply_of_part000 (JObj [(js ''response'', JStr r)]) = Inr []"
    by (simp add: reply_of_response reply_of_part000_response trim_blank)
  moreover have "reply_of (json_or_empty body) = Inr [] \<longrightarrow>
      editBox (gptBtn_click (Response http body) s) = editBox s \<and>
      filter is_send_task (issued s (gptBtn_click (Response http body) s)) = []"
    by (simp add: chat_defs)
  moreover have "reply_of (json_or_empty body) = Inr [] \<longrightarrow>
      editBox (explain_complete (Response http body) s) = editBox s \<and>
      filter is_send_task (issued s (explain_complete (Response http body) s)) = []"
    by (simp add: explain_complete_def explain_try_def chat_defs)
  moreover have "reply_of (json_or_empty body) = Inr [] \<longrightarrow> trim name \<noteq> [] \<longrightarrow>
         editBox (explainPerfume name (Response http body) s) = trim name \<and>
         filter is_send_task (issued s (explainPerfume name (Response http body) s)) =
           (if session_active s
            then [ReqSendTask (SESSION_ID s) (SESSION_TOKEN s) (trim name)] else [])"
    by (simp add: explainPerfume_def explain_begin_def explain_complete_def explain_try_def
          chat_defs)
  moreover have "reply_of_part000 j = Inr [] \<longrightarrow>
      editBox (gptBtn_click_part000 (Response http (Some j)) s) = editBox s \<and>
      filter is_send_task (issued s (gptBtn_click_part000 (Response http (Some j)) s)) = []"
    by (simp add: chat_defs)
  ultimately show ?thesis by blast
qed

theorem blank_reply_frame_witness:
  "reply_of (JObj [(js ''response'', JStr (js ''  ''))]) = Inr [] \<and>
   editBox (gptBtn_click (Response 200 (Some (JObj [(js ''response'', JStr (js ''  ''))])))
              (started\<lparr>editBox := js ''Hello''\<rparr>)) = js ''Hello'' \<and>
   filter is_send_task
     (issued (started\<lparr>editBox := js ''Hello''\<rparr>)
        (gptBtn_click (Response 200 (Some (JObj [(js ''response'', JStr (js ''  ''))])))
           (started\<lparr>editBox := js ''Hello''\<rparr>))) = [] \<and>
   editBox (explainPerfume (js ''Rose'') (Response 200 (Some (JObj [(js ''response'', JStr (js ''  ''))])))
              (started\<lparr>editBox := js ''Hello''\<rparr>)) = js ''Rose'' \<and>
   editBox (gptBtn_click_part000 (Response 200 (Some (JObj [])))
              (started\<lparr>editBox := js ''Hello''\<rparr>)) = js ''Hello''"
proof -
  have w: "\<forall>c\<in>set (js ''  ''). is_ws c"
    by (simp add: js_def is_ws_def)
  have m: "reply_of_part000 (JObj []) = Inr []"
    by (simp add: reply_of_missing)
  have t: "trim (js ''Rose'') = js ''Rose''" "js ''Rose'' \<noteq> []"
    by (simp_all add: trim_def is_ws_def js_def)
  show ?thesis
    using blank_reply_frame [of "started\<lparr>editBox := js ''Hello''\<rparr>" "js ''  ''"
        "Some (JObj [(js ''response'', JStr (js ''  ''))])" 200 "js ''Rose''" "JObj []"] w m t
    by (simp add: json_or_empty_def)
qed

subsection \<open>An example run\<close>

lemma env_ok_facts: "\<not> request_fails env_ok" "pc_ctor_ok env_ok"
  by (simp_all add: request_fails_def offer_present_def env_ok_def start_resp_s1_def
        json_or_empty_def js_def)

lemma example_run_state:
  "pc_history (run [Start Frontend env_ok, Start Part000 env_ok] loaded) =
     [Created 0, Closed 0, Created 1]"
  "conns (run [Start Frontend env_ok, Start Part000 env_ok] loaded) = [False, True]"
  "pc (run [Start Frontend env_ok, Start Part000 env_ok] loaded) = Some 1"
  by (simp_all add: run_def env_ok_def start_resp_s1_def loaded_def handler_defs prim_defs
        js_def)

theorem at_most_one_connection_witness:
  "card (open_after [Created 0, Closed 0, Created 1]) \<le> 1 \<and>
   pc (run [Start Frontend env_ok, Start Part000 env_ok] loaded) = Some 1 \<and>
   pc_history (startSession Frontend env_ok started) = [Created 0, Closed 0, Created 1]"
  using at_most_one_connection
    [of "[Created 0, Closed 0, Created 1]" "[Start Frontend env_ok, Start Part000 env_ok]"
        1 Frontend env_ok started]
  by (simp add: example_run_state started_simps closing_def env_ok_facts)

end
